theory Spec2Isabelle
  imports Main "HOL-Library.Word" "HOL-Library.Code_Target_Numeral"
begin

section \<open>responsive-ajax: values of the host language\<close>

text \<open>
  A JavaScript string is modelled as a \<^typ>\<open>string\<close> whose characters are read as the
  code points U+0000 to U+00FF. A JavaScript number is modelled as a signed word of 54
  bits: the integers from \<open>-2^53\<close> to \<open>2^53 - 1\<close>, each of which a double holds exactly
  and \<open>String\<close> and \<open>JSON.stringify\<close> print in plain decimal. Every value is a plain
  datum: no property holds a function. An object carries the assignments \<open>o[k] = v\<close>
  that made its own enumerable properties, in the order in which they were made, followed
  by the enumerable properties it inherits.
\<close>

datatype error = TypeError | ReferenceError

datatype jsval =
    JUndefined
  | JNull
  | JBool bool
  | JNum "54 word"
  | JStr string
  | JArr "jsval list"
  | JObj "(string \<times> jsval) list" "(string \<times> jsval) list"

fun truthy :: "jsval \<Rightarrow> bool" where
  "truthy JUndefined = False"
| "truthy JNull = False"
| "truthy (JBool b) = b"
| "truthy (JNum n) = (n \<noteq> 0)"
| "truthy (JStr s) = (s \<noteq> [])"
| "truthy (JArr vs) = True"
| "truthy (JObj own inherited) = True"

text \<open>The test \<open>data !== null && typeof data === 'object'\<close>.\<close>

fun isObject :: "jsval \<Rightarrow> bool" where
  "isObject (JArr vs) = True"
| "isObject (JObj own inherited) = True"
| "isObject v = False"

subsection \<open>String conversion\<close>

definition digitChar :: "nat \<Rightarrow> char" where
  "digitChar n = char_of (48 + n)"

fun showNat :: "nat \<Rightarrow> string" where
  "showNat n = (if n < 10 then [digitChar n] else showNat (n div 10) @ [digitChar (n mod 10)])"

declare showNat.simps [simp del]

definition showInt :: "int \<Rightarrow> string" where
  "showInt i = (if i < 0 then CHR ''-'' # showNat (nat (- i)) else showNat (nat i))"

text \<open>\<open>Array.prototype.join\<close> on strings.\<close>

fun joinWith :: "string \<Rightarrow> string list \<Rightarrow> string" where
  "joinWith sep [] = []"
| "joinWith sep [x] = x"
| "joinWith sep (x # y # ys) = x @ sep @ joinWith sep (y # ys)"

text \<open>\<open>String.prototype.split\<close> with a separator of one character.\<close>

fun splitOn :: "char \<Rightarrow> string \<Rightarrow> string list" where
  "splitOn d [] = [[]]"
| "splitOn d (c # cs) =
     (if c = d then [] # splitOn d cs
      else (case splitOn d cs of [] \<Rightarrow> [[c]] | p # ps \<Rightarrow> (c # p) # ps))"

text \<open>
  Whether the object, or the chain it inherits from, has a property of that name. In this
  model such a property holds a datum, so it hides the method of that name that every
  object inherits from \<open>Object.prototype\<close>, and calling it is a TypeError.
\<close>

fun definesProperty :: "string \<Rightarrow> jsval \<Rightarrow> bool" where
  "definesProperty name (JObj own inherited) = (name \<in> fst ` set own \<union> fst ` set inherited)"
| "definesProperty name v = False"

text \<open>
  \<open>String(v)\<close>. An array is joined with commas, its null and undefined elements
  printing as nothing; a plain object prints as \<open>[object Object]\<close>. The conversion of an
  object calls its \<open>toString\<close>: it raises a TypeError when the object has a property of
  that name, and so does the conversion of an array with such an element.
\<close>

fun stringRaises :: "jsval \<Rightarrow> bool" where
  "stringRaises (JObj own inherited) = definesProperty ''toString'' (JObj own inherited)"
| "stringRaises (JArr vs) = (\<exists>v \<in> set vs. stringRaises v)"
| "stringRaises v = False"

fun stringOf :: "jsval \<Rightarrow> string" where
  "stringOf JUndefined = ''undefined''"
| "stringOf JNull = ''null''"
| "stringOf (JBool b) = (if b then ''true'' else ''false'')"
| "stringOf (JNum n) = showInt (sint n)"
| "stringOf (JStr s) = s"
| "stringOf (JArr vs) =
     joinWith '','' (map (\<lambda>v. case v of JUndefined \<Rightarrow> [] | JNull \<Rightarrow> [] | _ \<Rightarrow> stringOf v) vs)"
| "stringOf (JObj own inherited) = ''[object Object]''"

definition ToString :: "jsval \<Rightarrow> error + string" where
  "ToString v = (if stringRaises v then Inl TypeError else Inr (stringOf v))"

text \<open>
  \<open>toUpperCase\<close>, on the letters a to z (the method names of a form are ASCII).
\<close>

definition upperChar :: "char \<Rightarrow> char" where
  "upperChar c =
     (let n = (of_char c :: nat) in if 97 \<le> n \<and> n \<le> 122 then char_of (n - 32) else c)"

definition toUpperCase :: "string \<Rightarrow> string" where
  "toUpperCase s = map upperChar s"

subsection \<open>Property enumeration\<close>

text \<open>
  The own properties that a list of assignments leaves, in the order in which the language
  visits them. An assignment to a key that exists replaces the value and keeps the place
  of the key. Keys that are array indices (the decimal numerals of 0 to \<open>2^32 - 2\<close>,
  without leading zeros) come first, in ascending order; the other keys follow in the
  order of their creation.
\<close>

fun assign :: "(string \<times> 'a) list \<Rightarrow> string \<Rightarrow> 'a \<Rightarrow> (string \<times> 'a) list" where
  "assign [] k v = [(k, v)]"
| "assign ((k', v') # ps) k v = (if k' = k then (k, v) # ps else (k', v') # assign ps k v)"

definition assignAll :: "(string \<times> 'a) list \<Rightarrow> (string \<times> 'a) list" where
  "assignAll ps = foldl (\<lambda>made (k, v). assign made k v) [] ps"

definition isDigit :: "char \<Rightarrow> bool" where
  "isDigit c = (48 \<le> (of_char c :: nat) \<and> (of_char c :: nat) \<le> 57)"

definition readNat :: "string \<Rightarrow> nat" where
  "readNat s = foldl (\<lambda>n c. 10 * n + (of_char c - 48)) 0 s"

definition isArrayIndex :: "string \<Rightarrow> bool" where
  "isArrayIndex k =
     (k \<noteq> [] \<and> list_all isDigit k \<and> (k = ''0'' \<or> hd k \<noteq> CHR ''0'')
      \<and> readNat k < 4294967295)"

definition propertyOrder :: "(string \<times> 'a) list \<Rightarrow> (string \<times> 'a) list" where
  "propertyOrder ps =
     sort_key (\<lambda>(k, v). readNat k) (filter (\<lambda>(k, v). isArrayIndex k) ps)
     @ filter (\<lambda>(k, v). \<not> isArrayIndex k) ps"

definition ownProperties :: "(string \<times> 'a) list \<Rightarrow> (string \<times> 'a) list" where
  "ownProperties ps = propertyOrder (assignAll ps)"

text \<open>
  One entry for each step of \<open>for (k in object)\<close>: the key \<open>k\<close>, whether \<open>k\<close> is
  an own property, and the value \<open>object[k]\<close>. Own properties come first;
  an inherited property is visited only when no own property shadows it. An array and
  a string enumerate their indices.
\<close>

fun forIn :: "jsval \<Rightarrow> (string \<times> bool \<times> jsval) list" where
  "forIn (JObj own inherited) =
     map (\<lambda>(k, v). (k, True, v)) (ownProperties own)
     @ map (\<lambda>(k, v). (k, False, v)) (filter (\<lambda>(k, v). k \<notin> fst ` set own) inherited)"
| "forIn (JArr vs) = map (\<lambda>(i, v). (showNat i, True, v)) (enumerate 0 vs)"
| "forIn (JStr s) = map (\<lambda>(i, c). (showNat i, True, JStr [c])) (enumerate 0 s)"
| "forIn v = []"

text \<open>
  The call \<open>object.hasOwnProperty(k)\<close>, given whether \<open>k\<close> is an own property. The
  method is looked up on the object itself: an object with a property named
  \<open>hasOwnProperty\<close> has a datum there, and the call is a TypeError.
\<close>

definition hasOwnProperty :: "jsval \<Rightarrow> bool \<Rightarrow> error + bool" where
  "hasOwnProperty object isOwn =
     (if definesProperty ''hasOwnProperty'' object then Inl TypeError else Inr isOwn)"

subsection \<open>encodeURIComponent\<close>

text \<open>
  Left alone are the letters, the digits and \<open>- _ . ! ~ * ' ( )\<close>. Any other code point
  is written as the bytes of its UTF-8 form, each as \<open>%\<close> and two upper-case hexadecimal
  digits: one byte below U+0080, two bytes from U+0080 to U+00FF.
\<close>

definition unreserved :: "char \<Rightarrow> bool" where
  "unreserved c =
     (let n = (of_char c :: nat) in
      (65 \<le> n \<and> n \<le> 90) \<or> (97 \<le> n \<and> n \<le> 122) \<or> (48 \<le> n \<and> n \<le> 57)
      \<or> n \<in> {45, 95, 46, 33, 126, 42, 39, 40, 41})"

definition hexDigit :: "nat \<Rightarrow> char" where
  "hexDigit n = (if n < 10 then char_of (48 + n) else char_of (55 + n))"

definition pct :: "nat \<Rightarrow> string" where
  "pct b = [CHR ''%'', hexDigit (b div 16), hexDigit (b mod 16)]"

definition encodeChar :: "char \<Rightarrow> string" where
  "encodeChar c =
     (let n = (of_char c :: nat) in
      if unreserved c then [c]
      else if n < 128 then pct n
      else pct (192 + n div 64) @ pct (128 + n mod 64))"

definition encodeURIComponent :: "string \<Rightarrow> string" where
  "encodeURIComponent s = concat (map encodeChar s)"

subsection \<open>JSON.stringify\<close>

definition hexLower :: "nat \<Rightarrow> char" where
  "hexLower n = (if n < 10 then char_of (48 + n) else char_of (87 + n))"

definition escapeChar :: "char \<Rightarrow> string" where
  "escapeChar c =
     (let n = (of_char c :: nat) in
      if n = 34 then [CHR 0x5C, CHR 0x22]
      else if n = 92 then [CHR 0x5C, CHR 0x5C]
      else if n = 8 then [CHR 0x5C, CHR ''b'']
      else if n = 12 then [CHR 0x5C, CHR ''f'']
      else if n = 10 then [CHR 0x5C, CHR ''n'']
      else if n = 13 then [CHR 0x5C, CHR ''r'']
      else if n = 9 then [CHR 0x5C, CHR ''t'']
      else if n < 32 then
        [CHR 0x5C, CHR ''u'', CHR ''0'', CHR ''0'', hexLower (n div 16), hexLower (n mod 16)]
      else [c])"

definition quoteJSON :: "string \<Rightarrow> string" where
  "quoteJSON s = CHR 0x22 # concat (map escapeChar s) @ [CHR 0x22]"

text \<open>
  The result is \<open>None\<close> where \<open>JSON.stringify\<close> returns undefined. Only own properties
  are written; a property whose value is undefined is left out, and an undefined array
  element is written as null.
\<close>

fun JSON_stringify :: "jsval \<Rightarrow> string option" where
  "JSON_stringify JUndefined = None"
| "JSON_stringify JNull = Some ''null''"
| "JSON_stringify (JBool b) = Some (if b then ''true'' else ''false'')"
| "JSON_stringify (JNum n) = Some (showInt (sint n))"
| "JSON_stringify (JStr s) = Some (quoteJSON s)"
| "JSON_stringify (JArr vs) =
     Some (''['' @ joinWith '',''
        (map (\<lambda>v. case JSON_stringify v of None \<Rightarrow> ''null'' | Some t \<Rightarrow> t) vs) @ '']'')"
| "JSON_stringify (JObj own inherited) =
     Some (''{'' @ joinWith '',''
        (concat (map (\<lambda>(k, t). case t of None \<Rightarrow> [] | Some t \<Rightarrow> [quoteJSON k @ '':'' @ t])
                   (ownProperties (map (\<lambda>(k, v). (k, JSON_stringify v)) own))))
        @ ''}'')"

section \<open>stringifyQuery\<close>

text \<open>The inner loop over an array value: one push for each element.\<close>

fun pushElements :: "string \<Rightarrow> jsval list \<Rightarrow> string list \<Rightarrow> error + string list" where
  "pushElements k [] qs = Inr qs"
| "pushElements k (e # es) qs =
     (case ToString e of
        Inl err \<Rightarrow> Inl err
      | Inr s \<Rightarrow>
          pushElements k es (qs @ [encodeURIComponent k @ ''='' @ encodeURIComponent s]))"

text \<open>
  The outer loop over the enumerated keys of \<open>object\<close>, \<open>qs\<close> being the array built
  so far.
\<close>

fun pushKeys ::
  "jsval \<Rightarrow> (string \<times> bool \<times> jsval) list \<Rightarrow> string list \<Rightarrow> error + string list" where
  "pushKeys object [] qs = Inr qs"
| "pushKeys object ((k, isOwn, v) # rest) qs =
     (case hasOwnProperty object isOwn of
        Inl err \<Rightarrow> Inl err
      | Inr hasOwn \<Rightarrow>
          if hasOwn then
            (case v of
               JArr es \<Rightarrow>
                 (case pushElements k es qs of
                    Inl err \<Rightarrow> Inl err
                  | Inr qs' \<Rightarrow> pushKeys object rest qs')
             | _ \<Rightarrow>
                 (case ToString v of
                    Inl err \<Rightarrow> Inl err
                  | Inr s \<Rightarrow>
                      pushKeys object rest
                        (qs @ [encodeURIComponent k @ ''='' @ encodeURIComponent s])))
          else pushKeys object rest qs)"

definition queryPairs :: "jsval \<Rightarrow> error + string list" where
  "queryPairs object = pushKeys object (forIn object) []"

definition stringifyQuery :: "jsval \<Rightarrow> error + string" where
  "stringifyQuery object =
     (case queryPairs object of
        Inl err \<Rightarrow> Inl err
      | Inr qs \<Rightarrow> Inr (joinWith ''&'' qs))"

text \<open>
  The name and value pairs that one step of the outer loop writes when nothing raises,
  before encoding: none for an inherited key, one for each element of an array, one for
  any other value.
\<close>

fun entryPairs :: "string \<times> bool \<times> jsval \<Rightarrow> (string \<times> string) list" where
  "entryPairs (k, isOwn, v) =
     (if isOwn then
        (case v of
           JArr es \<Rightarrow> map (\<lambda>e. (k, stringOf e)) es
         | _ \<Rightarrow> [(k, stringOf v)])
      else [])"

definition queryEntries :: "jsval \<Rightarrow> (string \<times> string) list" where
  "queryEntries object = concat (map entryPairs (forIn object))"

text \<open>The text of one pair: both sides encoded, with \<open>=\<close> between them.\<close>

definition pairText :: "string \<times> string \<Rightarrow> string" where
  "pairText p = encodeURIComponent (fst p) @ ''='' @ encodeURIComponent (snd p)"

section \<open>Forms\<close>

record optionEl =
  opt_selected :: bool
  opt_value :: string

record control =
  el_type :: string
  el_name :: string
  el_id :: string
  el_value :: string
  el_options :: "optionEl list"

record form =
  form_enctype :: string
  form_method :: string
  form_action :: string
  form_elements :: "control list"

text \<open>
  \<open>form.elements._method\<close>: the named getter of the controls collection finds a control
  by its id or its name, and gives undefined (\<open>None\<close>) when there is none.
\<close>

definition namedItem :: "string \<Rightarrow> form \<Rightarrow> control option" where
  "namedItem n f = find (\<lambda>c. el_id c = n \<or> el_name c = n) (form_elements f)"

section \<open>sendRequest\<close>

text \<open>
  An entity is a string or a \<open>FormData\<close> object built from a form. A request is the
  record of the calls made on the \<open>XMLHttpRequest\<close>: \<open>open(method, path, true)\<close>, the
  \<open>setRequestHeader\<close> calls in order, and \<open>send\<close> with or without an entity.
\<close>

datatype entity = Text string | FormData form

record request =
  req_method :: string
  req_path :: string
  req_headers :: "(string \<times> string) list"
  req_entity :: "entity option"

fun entityTruthy :: "entity \<Rightarrow> bool" where
  "entityTruthy (Text s) = (s \<noteq> [])"
| "entityTruthy (FormData f) = True"

text \<open>
  The loop over the caller's headers; \<open>setRequestHeader\<close> converts the value to a
  string. An error leaves the loop at once, and nothing is sent.
\<close>

fun headerCalls ::
  "jsval \<Rightarrow> (string \<times> bool \<times> jsval) list \<Rightarrow> error + (string \<times> string) list" where
  "headerCalls headers [] = Inr []"
| "headerCalls headers ((header, isOwn, v) # rest) =
     (case hasOwnProperty headers isOwn of
        Inl err \<Rightarrow> Inl err
      | Inr hasOwn \<Rightarrow>
          if hasOwn then
            (case ToString v of
               Inl err \<Rightarrow> Inl err
             | Inr s \<Rightarrow>
                 (case headerCalls headers rest of
                    Inl err \<Rightarrow> Inl err
                  | Inr calls \<Rightarrow> Inr ((header, s) # calls)))
          else headerCalls headers rest)"

text \<open>The block guarded by \<open>if (headers)\<close>.\<close>

definition callerHeaders :: "jsval \<Rightarrow> error + (string \<times> string) list" where
  "callerHeaders headers =
     (if truthy headers then headerCalls headers (forIn headers) else Inr [])"

text \<open>
  The optional arguments \<open>entity\<close> and \<open>type\<close> are \<open>None\<close> when the caller passes
  nothing; \<open>headers\<close> is then \<open>JUndefined\<close>.
\<close>

definition sendRequest ::
  "string \<Rightarrow> string \<Rightarrow> jsval \<Rightarrow> entity option \<Rightarrow> string option \<Rightarrow> error + request" where
  "sendRequest method path headers entity type =
     (case callerHeaders headers of
        Inl err \<Rightarrow> Inl err
      | Inr calls \<Rightarrow>
          Inr \<lparr> req_method = method,
                req_path = path,
                req_headers =
                  (''Accept'', ''application/json'')
                  # calls
                  @ (case type of
                       Some t \<Rightarrow> if t \<noteq> [] then [(''Content-Type'', t)] else []
                     | None \<Rightarrow> []),
                req_entity =
                  (case entity of
                     Some e \<Rightarrow> if entityTruthy e then Some e else None
                   | None \<Rightarrow> None) \<rparr>)"

section \<open>sendJSON, send and the four request methods\<close>

definition sendJSON :: "string \<Rightarrow> string \<Rightarrow> jsval \<Rightarrow> jsval \<Rightarrow> error + request" where
  "sendJSON method path data headers =
     (if isObject data then
        sendRequest method path headers (map_option Text (JSON_stringify data))
          (Some ''application/json'')
      else sendRequest method path headers None None)"

definition send :: "string \<Rightarrow> string \<Rightarrow> jsval \<Rightarrow> jsval \<Rightarrow> error + request" where
  "send method path data headers =
     (if isObject data then
        (case stringifyQuery data of
           Inl err \<Rightarrow> Inl err
         | Inr query \<Rightarrow> sendRequest method (path @ ''?'' @ query) headers None None)
      else sendRequest method path headers None None)"

definition putJSON :: "string \<Rightarrow> jsval \<Rightarrow> jsval \<Rightarrow> error + request" where
  "putJSON path data headers = sendJSON ''PUT'' path data headers"

definition postJSON :: "string \<Rightarrow> jsval \<Rightarrow> jsval \<Rightarrow> error + request" where
  "postJSON path data headers = sendJSON ''POST'' path data headers"

text \<open>
  \<open>del\<close> and \<open>get\<close> call \<open>send(method, path, headers)\<close>: the caller's headers arrive in
  the position of \<open>data\<close>, and \<open>send\<close> receives no headers.
\<close>

definition del :: "string \<Rightarrow> jsval \<Rightarrow> jsval \<Rightarrow> error + request" where
  "del path data headers = send ''DELETE'' path headers JUndefined"

definition get :: "string \<Rightarrow> jsval \<Rightarrow> jsval \<Rightarrow> error + request" where
  "get path data headers = send ''GET'' path headers JUndefined"

section \<open>sendForm and canSendForm\<close>

text \<open>
  \<open>form.elements._method\<close>, when there is such a control, is that control and not a
  string: calling \<open>toUpperCase\<close> on it is a TypeError. The argument \<open>new FormData(form)\<close>
  is a ReferenceError on a host that does not define \<open>FormData\<close>; the first parameter
  says whether the host defines it.
\<close>

definition sendMultipartForm :: "bool \<Rightarrow> form \<Rightarrow> error + request" where
  "sendMultipartForm hasFormData f =
     (case namedItem ''_method'' f of
        Some c \<Rightarrow> Inl TypeError
      | None \<Rightarrow>
          if hasFormData then
            sendRequest ''POST'' (form_action f) JNull (Some (FormData f))
              (Some ''multipart/form-data'')
          else Inl ReferenceError)"

text \<open>The loop over the options of a \<open>select-multiple\<close> control.\<close>

fun appendOptions :: "string \<Rightarrow> optionEl list \<Rightarrow> string \<Rightarrow> string" where
  "appendOptions name [] qs = qs"
| "appendOptions name (opt # opts) qs =
     (if opt_selected opt then
        appendOptions name opts
          (qs @ encodeURIComponent name @ ''='' @ encodeURIComponent (opt_value opt))
      else appendOptions name opts qs)"

text \<open>
  What follows the loop over the controls. The result \<open>Inr None\<close> is a return of
  undefined: the \<open>switch\<close> has no default case.
\<close>

definition sendFormTail :: "form \<Rightarrow> string \<Rightarrow> error + request option" where
  "sendFormTail f qs =
     (case namedItem ''_method'' f of
        Some c \<Rightarrow> Inl TypeError
      | None \<Rightarrow>
          (let method = toUpperCase (form_method f) in
           if method = ''POST'' \<or> method = ''PUT'' then
             map_sum id Some
               (sendRequest method (form_action f) JNull (Some (Text qs))
                  (Some ''application/x-www-form-urlencoded''))
           else if method = ''DELETE'' \<or> method = ''GET'' then
             map_sum id Some
               (sendRequest method (form_action f @ ''?'' @ qs) JUndefined None None)
           else Inr None))"

fun sendFormLoop :: "bool \<Rightarrow> form \<Rightarrow> control list \<Rightarrow> string \<Rightarrow> error + request option" where
  "sendFormLoop hasFormData f [] qs = sendFormTail f qs"
| "sendFormLoop hasFormData f (element # rest) qs =
     (if el_type element = ''file'' then map_sum id Some (sendMultipartForm hasFormData f)
      else if el_type element = ''select-multiple'' then
        sendFormLoop hasFormData f rest (appendOptions (el_name element) (el_options element) qs)
      else
        sendFormLoop hasFormData f rest
          (qs @ encodeURIComponent (el_name element) @ ''=''
              @ encodeURIComponent (el_value element)))"

definition sendForm :: "bool \<Rightarrow> form \<Rightarrow> error + request option" where
  "sendForm hasFormData f =
     (if form_enctype f = ''multipart/form-data'' then
        map_sum id Some (sendMultipartForm hasFormData f)
      else sendFormLoop hasFormData f (form_elements f) [])"

text \<open>The loop of \<open>canSendForm\<close>; falling out of it returns undefined (\<open>None\<close>).\<close>

fun canSendLoop :: "control list \<Rightarrow> bool option" where
  "canSendLoop [] = None"
| "canSendLoop (element # rest) =
     (if el_type element = ''file'' then Some False else canSendLoop rest)"

definition canSendForm :: "bool \<Rightarrow> form \<Rightarrow> bool option" where
  "canSendForm hasFormData f =
     (if hasFormData then Some True
      else if form_enctype f = ''multipart/form-data'' then Some False
      else canSendLoop (form_elements f))"


text \<open>
  The two conditions under which \<open>sendForm\<close> hands the form to \<open>sendMultipartForm\<close>,
  and the name and value pairs that the loop over the controls collects otherwise.
\<close>

definition needsMultipart :: "form \<Rightarrow> bool" where
  "needsMultipart f =
     (form_enctype f = ''multipart/form-data''
      \<or> list_ex (\<lambda>c. el_type c = ''file'') (form_elements f))"

fun controlPairs :: "control \<Rightarrow> (string \<times> string) list" where
  "controlPairs c =
     (if el_type c = ''select-multiple'' then
        map (\<lambda>opt. (el_name c, opt_value opt)) (filter opt_selected (el_options c))
      else [(el_name c, el_value c)])"

definition formPairs :: "form \<Rightarrow> (string \<times> string) list" where
  "formPairs f = concat (map controlPairs (form_elements f))"

section \<open>Reading a query string back\<close>








section \<open>makeRequest: the load listener\<close>

text \<open>
  The listener settles the deferred exactly once, with \<open>def.resolve(status, responseData)\<close>
  or \<open>def.reject(status, responseData[, reason])\<close>. The settlement is the value of the
  model; the third argument of \<open>reject\<close> is optional.
\<close>

datatype settlement =
    Resolve nat jsval
  | Reject nat jsval "string option"

text \<open>
  \<open>JSON.parse\<close> belongs to the host: it is a parameter, \<open>None\<close> standing for the
  SyntaxError that the \<open>try\<close> block catches.
\<close>

definition onLoad :: "(string \<Rightarrow> jsval option) \<Rightarrow> nat \<Rightarrow> string \<Rightarrow> settlement" where
  "onLoad JSON_parse reqStatus responseText =
     (let status = (if reqStatus = 1223 then 204 else reqStatus) in
      if responseText \<noteq> [] then
        (case JSON_parse responseText of
           None \<Rightarrow> Reject status JNull (Some ''parseerror'')
         | Some responseData \<Rightarrow>
             if status \<ge> 400 then Reject status responseData None
             else Resolve status responseData)
      else if status \<ge> 400 then Reject status JNull None
      else Resolve status JNull)"

text \<open>The status reported to callers: 1223 stands for 204.\<close>

definition normalized :: "nat \<Rightarrow> nat" where
  "normalized s = (if s = 1223 then 204 else s)"

text \<open>The body reported to callers: the parsed text, or null when the text is empty.\<close>

definition parsedBody :: "(string \<Rightarrow> jsval option) \<Rightarrow> string \<Rightarrow> jsval" where
  "parsedBody JSON_parse text = (if text = [] then JNull else the (JSON_parse text))"

section \<open>Decoding what encodeURIComponent writes\<close>










text \<open>The encoder never writes the separators \<open>&\<close> and \<open>=\<close>.\<close>

lemma hexDigit_code: "n < 16 \<Longrightarrow> (of_char (hexDigit n) :: nat) = (if n < 10 then 48 + n else 55 + n)"
  by (simp add: hexDigit_def)

lemma hexDigit_no_delim: "n < 16 \<Longrightarrow> hexDigit n \<noteq> CHR ''&'' \<and> hexDigit n \<noteq> CHR ''=''"
proof -
  assume "n < 16"
  then have "(of_char (hexDigit n) :: nat) \<noteq> 38 \<and> (of_char (hexDigit n) :: nat) \<noteq> 61"
    by (simp add: hexDigit_code)
  then show ?thesis by auto
qed

lemma pct_no_delim:
  "b < 256 \<Longrightarrow> x \<in> set (pct b) \<Longrightarrow> x \<noteq> CHR ''&'' \<and> x \<noteq> CHR ''=''"
  using hexDigit_no_delim [of "b div 16"] hexDigit_no_delim [of "b mod 16"]
  by (auto simp: pct_def less_mult_imp_div_less)

lemma unreserved_no_delim: "unreserved c \<Longrightarrow> c \<noteq> CHR ''&'' \<and> c \<noteq> CHR ''=''"
  by (auto simp: unreserved_def Let_def)

lemma encodeChar_no_delim:
  assumes "x \<in> set (encodeChar c)"
  shows "x \<noteq> CHR ''&'' \<and> x \<noteq> CHR ''=''"
proof (cases "unreserved c")
  case True
  with assms show ?thesis by (simp add: encodeChar_def unreserved_no_delim)
next
  case False
  define n where "n = (of_char c :: nat)"
  have n: "n < 256" by (simp add: n_def)
  show ?thesis
  proof (cases "n < 128")
    case True
    with False assms have "x \<in> set (pct n)" by (simp add: encodeChar_def n_def Let_def)
    with n show ?thesis by (rule pct_no_delim)
  next
    case hi: False
    have hi1: "192 + n div 64 < 256" using n by (simp add: less_mult_imp_div_less)
    have lo1: "128 + n mod 64 < 256" by simp
    from False hi assms have "x \<in> set (pct (192 + n div 64)) \<or> x \<in> set (pct (128 + n mod 64))"
      by (simp add: encodeChar_def n_def Let_def)
    then show ?thesis using pct_no_delim [OF hi1] pct_no_delim [OF lo1] by blast
  qed
qed

lemma encode_no_delim:
  "x \<in> set (encodeURIComponent s) \<Longrightarrow> x \<noteq> CHR ''&'' \<and> x \<noteq> CHR ''=''"
  by (auto simp: encodeURIComponent_def dest: encodeChar_no_delim)

lemma pairText_no_amp: "CHR ''&'' \<notin> set (pairText p)"
  using encode_no_delim by (auto simp: pairText_def)

section \<open>Splitting and parsing a joined query string\<close>

lemma splitOn_no_delim: "d \<notin> set s \<Longrightarrow> splitOn d s = [s]"
  by (induction s) auto

lemma splitOn_append: "d \<notin> set a \<Longrightarrow> splitOn d (a @ d # b) = a # splitOn d b"
  by (induction a) auto

lemma splitOn_joinWith:
  "ps \<noteq> [] \<Longrightarrow> \<forall>p \<in> set ps. d \<notin> set p \<Longrightarrow> splitOn d (joinWith [d] ps) = ps"
proof (induction "[d]" ps rule: joinWith.induct)
  case 1
  then show ?case by simp
next
  case (2 x)
  then show ?case by (simp add: splitOn_no_delim)
next
  case (3 x y ys)
  then show ?case by (simp add: splitOn_append)
qed





section \<open>The own properties of an object\<close>

lemma keys_assign: "fst ` set (assign ps k v) = insert k (fst ` set ps)"
proof (induction ps)
  case Nil
  then show ?case by simp
next
  case (Cons p ps)
  obtain k' v' where p: "p = (k', v')" by (cases p)
  show ?case
  proof (cases "k' = k")
    case True
    then show ?thesis by (simp add: p)
  next
    case False
    then show ?thesis using Cons.IH by (simp add: p insert_commute)
  qed
qed

lemma set_assign: "set (assign ps k v) \<subseteq> insert (k, v) (set ps)"
proof (induction ps)
  case Nil
  then show ?case by simp
next
  case (Cons p ps)
  obtain k' v' where p: "p = (k', v')" by (cases p)
  show ?case
  proof (cases "k' = k")
    case True
    then show ?thesis by (auto simp: p)
  next
    case False
    then show ?thesis using Cons.IH by (auto simp: p)
  qed
qed

lemma keys_foldl_assign:
  "fst ` set (foldl (\<lambda>made (k, v). assign made k v) made ps) = fst ` set made \<union> fst ` set ps"
proof (induction ps arbitrary: made)
  case Nil
  then show ?case by simp
next
  case (Cons p ps)
  obtain k v where p: "p = (k, v)" by (cases p)
  have "fst ` set (foldl (\<lambda>made (k, v). assign made k v) (assign made k v) ps)
          = fst ` set (assign made k v) \<union> fst ` set ps"
    by (rule Cons.IH)
  then show ?case by (simp add: p keys_assign)
qed

lemma set_foldl_assign:
  "set (foldl (\<lambda>made (k, v). assign made k v) made ps) \<subseteq> set made \<union> set ps"
proof (induction ps arbitrary: made)
  case Nil
  then show ?case by simp
next
  case (Cons p ps)
  obtain k v where p: "p = (k, v)" by (cases p)
  have "set (foldl (\<lambda>made (k, v). assign made k v) (assign made k v) ps)
          \<subseteq> set (assign made k v) \<union> set ps"
    by (rule Cons.IH)
  also have "\<dots> \<subseteq> insert (k, v) (set made) \<union> set ps"
    using set_assign [of made k v] by auto
  finally show ?case by (auto simp: p)
qed

lemma set_propertyOrder: "set (propertyOrder ps) = set ps"
  by (auto simp: propertyOrder_def)

lemma keys_ownProperties: "fst ` set (ownProperties ps) = fst ` set ps"
  using keys_foldl_assign [of "[]" ps] by (simp add: ownProperties_def set_propertyOrder assignAll_def)

lemma set_ownProperties: "set (ownProperties ps) \<subseteq> set ps"
  using set_foldl_assign [of "[]" ps] by (simp add: ownProperties_def set_propertyOrder assignAll_def)

lemma ownProperties_single: "ownProperties [(k, v)] = [(k, v)]"
  by (simp add: ownProperties_def assignAll_def propertyOrder_def)

section \<open>What stringifyQuery writes\<close>

lemma ToString_prints: "\<not> stringRaises v \<Longrightarrow> ToString v = Inr (stringOf v)"
  by (simp add: ToString_def)

lemma ToString_raises: "stringRaises v \<Longrightarrow> ToString v = Inl TypeError"
  by (simp add: ToString_def)


text \<open>The loops of \<open>stringifyQuery\<close>, as the list of pairs they push when nothing raises.\<close>

lemma pushElements_eq:
  "\<forall>e \<in> set es. \<not> stringRaises e \<Longrightarrow>
     pushElements k es qs = Inr (qs @ map (\<lambda>e. pairText (k, stringOf e)) es)"
  by (induction es arbitrary: qs) (simp_all add: pairText_def ToString_prints)

lemma pushKeys_eq:
  assumes "\<not> definesProperty ''hasOwnProperty'' object"
    and "\<forall>(k, isOwn, v) \<in> set entries. isOwn \<longrightarrow> \<not> stringRaises v"
  shows "pushKeys object entries qs = Inr (qs @ map pairText (concat (map entryPairs entries)))"
  using assms(2)
proof (induction entries arbitrary: qs)
  case Nil
  then show ?case by simp
next
  case (Cons entry rest)
  obtain k isOwn v where entry: "entry = (k, isOwn, v)" by (cases entry)
  have rest: "pushKeys object rest qs' = Inr (qs' @ map pairText (concat (map entryPairs rest)))"
    for qs' using Cons by simp
  show ?case
  proof (cases isOwn)
    case False
    with assms(1) entry rest show ?thesis by (simp add: hasOwnProperty_def)
  next
    case True
    with Cons.prems entry have v: "\<not> stringRaises v" by simp
    show ?thesis
    proof (cases v)
      case (JArr es)
      with v have "\<forall>e \<in> set es. \<not> stringRaises e" by simp
      with assms(1) entry True JArr rest show ?thesis
        by (simp add: hasOwnProperty_def pushElements_eq)
    qed (use assms(1) entry True v rest in
          \<open>simp_all add: hasOwnProperty_def ToString_def pairText_def\<close>)
  qed
qed

lemma pushKeys_shadowed:
  "definesProperty ''hasOwnProperty'' object \<Longrightarrow> entries \<noteq> [] \<Longrightarrow>
     pushKeys object entries qs = Inl TypeError"
  by (cases entries) (auto simp: hasOwnProperty_def)

lemma forIn_shadowed:
  assumes "definesProperty name object"
  shows "forIn object \<noteq> []"
proof (cases object)
  case (JObj own inherited)
  show ?thesis
  proof (cases "name \<in> fst ` set own")
    case True
    then have "fst ` set (ownProperties own) \<noteq> {}" by (auto simp: keys_ownProperties)
    then have "ownProperties own \<noteq> []" by auto
    with JObj show ?thesis by simp
  next
    case False
    with assms JObj obtain v where "(name, v) \<in> set inherited" by auto
    with False have "filter (\<lambda>(k, v). k \<notin> fst ` set own) inherited \<noteq> []"
      by (auto simp: filter_empty_conv)
    with JObj show ?thesis by simp
  qed
qed (use assms in simp_all)

text \<open>
  An object with a property named \<open>hasOwnProperty\<close> cannot be stringified: the first
  step of the loop raises.
\<close>

lemma stringifyQuery_shadowed:
  "definesProperty ''hasOwnProperty'' object \<Longrightarrow> stringifyQuery object = Inl TypeError"
  by (simp add: stringifyQuery_def queryPairs_def pushKeys_shadowed forIn_shadowed)

lemma stringifyQuery_eq:
  assumes "\<not> definesProperty ''hasOwnProperty'' object"
    and "\<forall>(k, isOwn, v) \<in> set (forIn object). isOwn \<longrightarrow> \<not> stringRaises v"
  shows "stringifyQuery object = Inr (joinWith ''&'' (map pairText (queryEntries object)))"
  using pushKeys_eq [OF assms, of "[]"]
  by (simp add: stringifyQuery_def queryPairs_def queryEntries_def)

lemma forIn_own_values:
  "(\<forall>(k, v) \<in> set own. \<not> stringRaises v) \<Longrightarrow>
     \<forall>(k, isOwn, v) \<in> set (forIn (JObj own inherited)). isOwn \<longrightarrow> \<not> stringRaises v"
  using set_ownProperties [of own] by auto





lemma own_entry_written:
  "(k, v) \<in> set (ownProperties own) \<Longrightarrow>
     set (entryPairs (k, True, v)) \<subseteq> set (queryEntries (JObj own inherited))"
  by (force simp: queryEntries_def simp del: entryPairs.simps)




text \<open>
  Where nothing raises, an own key whose value is null or undefined is not skipped:
  between the \<open>&\<close> separators of the query string there is the encoded key, \<open>=\<close>, and
  the encoded string conversion of the value; the same holds for a null or undefined
  element of an array value.
\<close>

lemma null_values_written:
  assumes "\<not> definesProperty ''hasOwnProperty'' (JObj own inherited)"
    and "\<forall>(k, v) \<in> set own. \<not> stringRaises v"
  shows "\<exists>q. stringifyQuery (JObj own inherited) = Inr q
     \<and> ((k, v) \<in> set (ownProperties own) \<and> (v = JNull \<or> v = JUndefined) \<longrightarrow>
          encodeURIComponent k @ ''='' @ encodeURIComponent (stringOf v)
            \<in> set (splitOn (CHR ''&'') q))
     \<and> ((k, JArr es) \<in> set (ownProperties own) \<and> e \<in> set es
          \<and> (e = JNull \<or> e = JUndefined) \<longrightarrow>
          encodeURIComponent k @ ''='' @ encodeURIComponent (stringOf e)
            \<in> set (splitOn (CHR ''&'') q))"
proof -
  let ?obj = "JObj own inherited"
  let ?q = "joinWith ''&'' (map pairText (queryEntries ?obj))"
  have q: "stringifyQuery ?obj = Inr ?q"
    by (intro stringifyQuery_eq [OF assms(1)] forIn_own_values assms(2))
  have seg: "p \<in> set (queryEntries ?obj) \<Longrightarrow> pairText p \<in> set (splitOn (CHR ''&'') ?q)" for p
  proof -
    assume p: "p \<in> set (queryEntries ?obj)"
    then have "map pairText (queryEntries ?obj) \<noteq> []" by auto
    then have "splitOn (CHR ''&'') ?q = map pairText (queryEntries ?obj)"
      using pairText_no_amp by (intro splitOn_joinWith) auto
    with p show ?thesis by simp
  qed
  have a: "(k, v) \<in> set (ownProperties own) \<Longrightarrow> v = JNull \<or> v = JUndefined \<Longrightarrow>
             (k, stringOf v) \<in> set (queryEntries ?obj)"
    using own_entry_written [of k v own inherited] by auto
  have b: "(k, JArr es) \<in> set (ownProperties own) \<Longrightarrow> e \<in> set es \<Longrightarrow>
             (k, stringOf e) \<in> set (queryEntries ?obj)"
    using own_entry_written [of k "JArr es" own inherited] by auto
  show ?thesis
    using q seg [OF a] seg [OF b] unfolding pairText_def by (auto simp del: stringOf.simps)
qed

lemma null_prints:
  "encodeURIComponent (stringOf JNull) = ''null''"
  "encodeURIComponent (stringOf JUndefined) = ''undefined''"
  by (simp_all add: encodeURIComponent_def encodeChar_def unreserved_def)

text \<open>
  C10 does not hold of the code. The loop asks \<open>object.hasOwnProperty(k)\<close> of the bag
  itself: in the bag \<open>{hasOwnProperty: null}\<close>, whose only own key has a null value, that
  property is null and not a function, so the call raises a TypeError and no pair is
  written.
\<close>

theorem stringifyQuery_shadowed_method:
  "stringifyQuery (JObj [(''hasOwnProperty'', JNull)] []) = Inl TypeError
   \<and> send ''GET'' ''/items'' (JObj [(''hasOwnProperty'', JNull)] []) JUndefined = Inl TypeError"
  by (simp add: send_def stringifyQuery_def queryPairs_def hasOwnProperty_def ownProperties_single)

section \<open>Classification of a completed response\<close>

text \<open>
  C2. On a load event the status 1223 is reported as 204. A non-empty body that does not
  parse gives a rejection with the normalized status, a null body and the reason
  \<open>parseerror\<close>, whatever the status. Otherwise a normalized status of 400 or more gives a
  rejection with the parsed body (null for an empty body) and no reason, and any smaller
  status gives a resolution with the normalized status and the parsed body or null.
\<close>

theorem onLoad_classifies:
  "(text \<noteq> [] \<and> parse text = None \<longrightarrow>
      onLoad parse s text = Reject (normalized s) JNull (Some ''parseerror''))
   \<and> (\<not> (text \<noteq> [] \<and> parse text = None) \<and> normalized s \<ge> 400 \<longrightarrow>
      onLoad parse s text = Reject (normalized s) (parsedBody parse text) None)
   \<and> (\<not> (text \<noteq> [] \<and> parse text = None) \<and> \<not> normalized s \<ge> 400 \<longrightarrow>
      onLoad parse s text = Resolve (normalized s) (parsedBody parse text))
   \<and> normalized 1223 = 204"
  by (auto simp: onLoad_def normalized_def parsedBody_def Let_def split: option.splits)

theorem onLoad_classifies_witness:
  "onLoad (\<lambda>t. if t = ''null'' then Some JNull else None) 1223 ''<html>''
     = Reject 204 JNull (Some ''parseerror'')
   \<and> onLoad (\<lambda>t. if t = ''null'' then Some JNull else None) 500 ''null''
     = Reject 500 JNull None
   \<and> onLoad (\<lambda>t. if t = ''null'' then Some JNull else None) 1223 ''''
     = Resolve 204 JNull"
  using onLoad_classifies [of "''<html>''" "\<lambda>t. if t = ''null'' then Some JNull else None" 1223]
    onLoad_classifies [of "''null''" "\<lambda>t. if t = ''null'' then Some JNull else None" 500]
    onLoad_classifies [of "''''" "\<lambda>t. if t = ''null'' then Some JNull else None" 1223]
  by (simp add: normalized_def parsedBody_def)

section \<open>JSON requests\<close>

lemma JSON_stringify_object:
  "isObject data \<Longrightarrow> \<exists>t. JSON_stringify data = Some t \<and> t \<noteq> []"
  by (cases data) simp_all

text \<open>When the loop over the caller's headers raises, and what it sets when it does not.\<close>

lemma callerHeaders_falsy: "\<not> truthy headers \<Longrightarrow> callerHeaders headers = Inr []"
  by (simp add: callerHeaders_def)

lemma callerHeaders_shadowed:
  "definesProperty ''hasOwnProperty'' headers \<Longrightarrow> callerHeaders headers = Inl TypeError"
proof -
  assume d: "definesProperty ''hasOwnProperty'' headers"
  then obtain entry rest where "forIn headers = entry # rest"
    using forIn_shadowed [OF d] by (cases "forIn headers") auto
  moreover have "truthy headers" using d by (cases headers) simp_all
  ultimately show ?thesis
    using d by (cases entry) (simp add: callerHeaders_def hasOwnProperty_def)
qed

lemma headerCalls_eq:
  assumes "\<not> definesProperty ''hasOwnProperty'' headers"
    and "\<forall>(k, isOwn, v) \<in> set entries. isOwn \<longrightarrow> \<not> stringRaises v"
  shows "headerCalls headers entries
           = Inr (map (\<lambda>(k, isOwn, v). (k, stringOf v)) (filter (\<lambda>(k, isOwn, v). isOwn) entries))"
  using assms(2)
proof (induction entries)
  case Nil
  then show ?case by simp
next
  case (Cons entry rest)
  obtain k isOwn v where entry: "entry = (k, isOwn, v)" by (cases entry)
  with Cons assms(1) show ?case
    by (cases isOwn) (simp_all add: hasOwnProperty_def ToString_def)
qed

text \<open>
  C3, as amended. For every call of \<open>putJSON\<close> or \<open>postJSON\<close> in which the loop over
  the caller's headers raises no error: when the data is a non-null object, the request
  carries the JSON text of the data as its entity, and the header Content-Type:
  application/json is set after Accept and the caller's headers; otherwise the request
  carries no entity and its headers are Accept and the caller's own and nothing else, so
  it has a Content-Type header only if the caller supplied one.
\<close>

theorem sendJSON_dispatch:
  "callerHeaders headers = Inr calls \<Longrightarrow>
   (isObject data \<longrightarrow>
      JSON_stringify data \<noteq> None
      \<and> putJSON path data headers =
          Inr \<lparr> req_method = ''PUT'', req_path = path,
                req_headers = (''Accept'', ''application/json'') # calls
                              @ [(''Content-Type'', ''application/json'')],
                req_entity = Some (Text (the (JSON_stringify data))) \<rparr>
      \<and> postJSON path data headers =
          Inr \<lparr> req_method = ''POST'', req_path = path,
                req_headers = (''Accept'', ''application/json'') # calls
                              @ [(''Content-Type'', ''application/json'')],
                req_entity = Some (Text (the (JSON_stringify data))) \<rparr>)
   \<and> (\<not> isObject data \<longrightarrow>
      putJSON path data headers =
          Inr \<lparr> req_method = ''PUT'', req_path = path,
                req_headers = (''Accept'', ''application/json'') # calls,
                req_entity = None \<rparr>
      \<and> postJSON path data headers =
          Inr \<lparr> req_method = ''POST'', req_path = path,
                req_headers = (''Accept'', ''application/json'') # calls,
                req_entity = None \<rparr>)"
proof (cases "isObject data")
  case True
  assume c: "callerHeaders headers = Inr calls"
  from True obtain t where "JSON_stringify data = Some t" "t \<noteq> []"
    using JSON_stringify_object by blast
  with True c show ?thesis
    by (simp add: putJSON_def postJSON_def sendJSON_def sendRequest_def)
next
  case False
  assume c: "callerHeaders headers = Inr calls"
  with False show ?thesis
    by (simp add: putJSON_def postJSON_def sendJSON_def sendRequest_def)
qed

theorem sendJSON_dispatch_witness:
  "callerHeaders JUndefined = Inr []
   \<and> postJSON ''/items'' (JObj [(''name'', JStr ''a'')] []) JUndefined =
     Inr \<lparr> req_method = ''POST'', req_path = ''/items'',
       req_headers = [(''Accept'', ''application/json''), (''Content-Type'', ''application/json'')],
       req_entity = Some (Text [CHR ''{'', CHR 0x22, CHR ''n'', CHR ''a'', CHR ''m'', CHR ''e'',
                                CHR 0x22, CHR '':'', CHR 0x22, CHR ''a'', CHR 0x22, CHR ''}'']) \<rparr>
   \<and> callerHeaders (JObj [(''X-Token'', JStr ''t'')] []) = Inr [(''X-Token'', ''t'')]
   \<and> putJSON ''/items'' JNull (JObj [(''X-Token'', JStr ''t'')] []) =
     Inr \<lparr> req_method = ''PUT'', req_path = ''/items'',
       req_headers = [(''Accept'', ''application/json''), (''X-Token'', ''t'')],
       req_entity = None \<rparr>"
proof -
  have q: "quoteJSON ''name'' = [CHR 0x22, CHR ''n'', CHR ''a'', CHR ''m'', CHR ''e'', CHR 0x22]"
    "quoteJSON ''a'' = [CHR 0x22, CHR ''a'', CHR 0x22]"
    by (simp_all add: quoteJSON_def escapeChar_def)
  have c1: "callerHeaders JUndefined = Inr []" by (simp add: callerHeaders_def)
  have c2: "callerHeaders (JObj [(''X-Token'', JStr ''t'')] []) = Inr [(''X-Token'', ''t'')]"
    by (simp add: callerHeaders_def hasOwnProperty_def ToString_def ownProperties_single)
  show ?thesis
    using sendJSON_dispatch [OF c1, of "JObj [(''name'', JStr ''a'')] []" "''/items''"]
      sendJSON_dispatch [OF c2, of JNull "''/items''"] c1 c2
    by (simp add: q ownProperties_single)
qed

text \<open>
  C3, as stated, fails in its second half: with null data and a caller who passes a
  Content-Type among the headers, the request has no entity and does have a Content-Type
  header.
\<close>

theorem sendJSON_caller_content_type:
  "\<not> isObject JNull
   \<and> postJSON ''/items'' JNull (JObj [(''Content-Type'', JStr ''text/plain'')] []) =
       Inr \<lparr> req_method = ''POST'', req_path = ''/items'',
         req_headers = [(''Accept'', ''application/json''), (''Content-Type'', ''text/plain'')],
         req_entity = None \<rparr>"
  by (simp add: postJSON_def sendJSON_def sendRequest_def callerHeaders_def hasOwnProperty_def
      ToString_def ownProperties_single)

section \<open>Query requests\<close>

text \<open>What \<open>get\<close> and \<open>del\<close> send does not depend on the data at all.\<close>

lemma get_ignores_data: "get path data headers = get path data' headers"
  by (simp add: get_def)

lemma del_ignores_data: "del path data headers = del path data' headers"
  by (simp add: del_def)

lemma send_appends_query:
  "isObject data \<Longrightarrow> stringifyQuery data = Inr query \<Longrightarrow> callerHeaders headers = Inr calls \<Longrightarrow>
     send method path data headers =
       Inr \<lparr> req_method = method, req_path = path @ ''?'' @ query,
             req_headers = (''Accept'', ''application/json'') # calls,
             req_entity = None \<rparr>"
  by (simp add: send_def sendRequest_def)

text \<open>
  C1 does not hold of the code. \<open>get\<close> and \<open>del\<close> hand their headers to \<open>send\<close> in
  the place of the data, so the data never reaches the path: with the data \<open>{a: 1}\<close>,
  whose query string is \<open>a=1\<close>, and no headers, the request goes to \<open>/items\<close> and not
  to \<open>/items?a=1\<close>.
\<close>

theorem get_del_drop_data:
  "isObject (JObj [(''a'', JNum 1)] [])
   \<and> stringifyQuery (JObj [(''a'', JNum 1)] []) = Inr ''a=1''
   \<and> get ''/items'' (JObj [(''a'', JNum 1)] []) JUndefined
     = Inr \<lparr> req_method = ''GET'', req_path = ''/items'',
         req_headers = [(''Accept'', ''application/json'')], req_entity = None \<rparr>
   \<and> del ''/items'' (JObj [(''a'', JNum 1)] []) JUndefined
     = Inr \<lparr> req_method = ''DELETE'', req_path = ''/items'',
         req_headers = [(''Accept'', ''application/json'')], req_entity = None \<rparr>"
proof -
  have n: "showInt 1 = ''1''" by code_simp
  have e: "encodeURIComponent ''a'' = ''a''" "encodeURIComponent ''1'' = ''1''" by code_simp+
  have "stringifyQuery (JObj [(''a'', JNum 1)] []) = Inr ''a=1''"
    by (simp add: stringifyQuery_def queryPairs_def hasOwnProperty_def ToString_def
        ownProperties_single n e)
  then show ?thesis
    by (simp add: get_def del_def send_def sendRequest_def callerHeaders_def)
qed

section \<open>What sendForm and canSendForm do\<close>

text \<open>The three outcomes of \<open>canSendForm\<close>.\<close>

lemma canSendLoop_eq:
  "canSendLoop els = (if list_ex (\<lambda>c. el_type c = ''file'') els then Some False else None)"
  by (induction els) simp_all

lemma canSendForm_cases:
  "canSendForm hasFormData f =
     (if hasFormData then Some True else if needsMultipart f then Some False else None)"
  by (simp add: canSendForm_def needsMultipart_def canSendLoop_eq)

text \<open>
  C6 does not hold of the code. On a host without \<open>FormData\<close>, a form that is neither
  multipart nor holds a file control falls out of the loop of \<open>canSendForm\<close>, which then
  returns undefined and not true.
\<close>

theorem canSendForm_falls_through:
  "canSendForm False
     \<lparr> form_enctype = ''application/x-www-form-urlencoded'', form_method = ''post'',
       form_action = ''/s'',
       form_elements = [\<lparr> el_type = ''text'', el_name = ''a'', el_id = [], el_value = ''1'',
                          el_options = [] \<rparr>] \<rparr> = None"
  by (simp add: canSendForm_def)

text \<open>
  C4 does not hold of the code. The loop of \<open>sendForm\<close> appends each pair to \<open>qs\<close> with
  no separator: a form with the controls \<open>a = 1\<close> and \<open>b = 2\<close> is posted with the entity
  \<open>a=1b=2\<close> and not \<open>a=1&b=2\<close>.
\<close>

theorem sendForm_no_separator:
  "sendForm False
     \<lparr> form_enctype = ''application/x-www-form-urlencoded'', form_method = ''post'',
       form_action = ''/s'',
       form_elements =
         [\<lparr> el_type = ''text'', el_name = ''a'', el_id = [], el_value = ''1'', el_options = [] \<rparr>,
          \<lparr> el_type = ''text'', el_name = ''b'', el_id = [], el_value = ''2'', el_options = [] \<rparr>] \<rparr>
   = Inr (Some \<lparr> req_method = ''POST'', req_path = ''/s'',
         req_headers = [(''Accept'', ''application/json''),
                        (''Content-Type'', ''application/x-www-form-urlencoded'')],
         req_entity = Some (Text ''a=1b=2'') \<rparr>)"
  by code_simp

text \<open>The loops of \<open>sendForm\<close>, as the text they append.\<close>

lemma appendOptions_eq:
  "appendOptions name opts qs
     = qs @ concat (map (\<lambda>opt. pairText (name, opt_value opt)) (filter opt_selected opts))"
  by (induction opts arbitrary: qs) (simp_all add: pairText_def)

lemma sendFormLoop_file:
  "list_ex (\<lambda>c. el_type c = ''file'') els \<Longrightarrow>
     sendFormLoop h f els qs = map_sum id Some (sendMultipartForm h f)"
  by (induction els arbitrary: qs) auto

lemma sendFormLoop_no_file:
  "\<not> list_ex (\<lambda>c. el_type c = ''file'') els \<Longrightarrow>
     sendFormLoop h f els qs
       = sendFormTail f (qs @ concat (map pairText (concat (map controlPairs els))))"
  by (induction els arbitrary: qs) (simp_all add: appendOptions_eq pairText_def comp_def)

lemma sendForm_multipart:
  "needsMultipart f \<Longrightarrow> sendForm h f = map_sum id Some (sendMultipartForm h f)"
  by (auto simp: needsMultipart_def sendForm_def sendFormLoop_file)

lemma sendForm_urlencoded:
  "\<not> needsMultipart f \<Longrightarrow> sendForm h f = sendFormTail f (concat (map pairText (formPairs f)))"
  by (simp add: needsMultipart_def sendForm_def sendFormLoop_no_file formPairs_def)

text \<open>With a control whose name or id is \<open>_method\<close> every path of \<open>sendForm\<close> ends in the TypeError.\<close>

lemma sendForm_override_raises:
  "namedItem ''_method'' f = Some c \<Longrightarrow> sendForm h f = Inl TypeError"
  by (cases "needsMultipart f")
    (simp_all add: sendForm_multipart sendForm_urlencoded sendMultipartForm_def sendFormTail_def)

text \<open>
  C5, as amended. For every form with no control whose name or id is \<open>_method\<close>: on
  the multipart
  path (the enctype is \<open>multipart/form-data\<close> or there is a file control), on a host
  with \<open>FormData\<close>, the request is sent with the method POST, whatever method the form
  declares; on the other path, when the declared method in upper case is POST, PUT,
  DELETE or GET, the request is sent with the declared method in upper case.
\<close>

theorem effective_method_without_override:
  "namedItem ''_method'' f = None \<Longrightarrow>
     (needsMultipart f \<longrightarrow> (\<exists>r. sendForm True f = Inr (Some r) \<and> req_method r = ''POST''))
     \<and> (\<not> needsMultipart f
          \<and> toUpperCase (form_method f) \<in> {''POST'', ''PUT'', ''DELETE'', ''GET''} \<longrightarrow>
        (\<exists>r. sendForm h f = Inr (Some r) \<and> req_method r = toUpperCase (form_method f)))"
  by (auto simp: sendForm_multipart sendForm_urlencoded sendMultipartForm_def sendFormTail_def
      sendRequest_def callerHeaders_def Let_def)

theorem effective_method_without_override_witness:
  "toUpperCase ''get'' = ''GET''
   \<and> sendForm False
     \<lparr> form_enctype = ''application/x-www-form-urlencoded'', form_method = ''get'',
       form_action = ''/s'',
       form_elements = [\<lparr> el_type = ''text'', el_name = ''a'', el_id = [], el_value = ''1'',
                          el_options = [] \<rparr>] \<rparr>
     = Inr (Some \<lparr> req_method = ''GET'', req_path = ''/s?a=1'',
              req_headers = [(''Accept'', ''application/json'')], req_entity = None \<rparr>)
   \<and> (\<exists>r. sendForm True
          \<lparr> form_enctype = ''multipart/form-data'', form_method = ''post'',
            form_action = ''/up'', form_elements = [] \<rparr> = Inr (Some r)
        \<and> req_method r = ''POST'')"
proof -
  let ?f = "\<lparr> form_enctype = ''application/x-www-form-urlencoded'', form_method = ''get'',
       form_action = ''/s'',
       form_elements = [\<lparr> el_type = ''text'', el_name = ''a'', el_id = [], el_value = ''1'',
                          el_options = [] \<rparr>] \<rparr>"
  let ?g = "\<lparr> form_enctype = ''multipart/form-data'', form_method = ''post'',
            form_action = ''/up'', form_elements = [] \<rparr>"
  have n: "namedItem ''_method'' ?f = None" by (simp add: namedItem_def)
  have m: "\<not> needsMultipart ?f" by (simp add: needsMultipart_def)
  have u: "toUpperCase ''get'' = ''GET''" by code_simp
  have e: "encodeURIComponent ''a'' = ''a''" "encodeURIComponent ''1'' = ''1''" by code_simp+
  obtain r where r: "sendForm False ?f = Inr (Some r)" "req_method r = ''GET''"
    using effective_method_without_override [OF n, of False] m u by auto
  have first: "sendForm False ?f = Inr (Some \<lparr> req_method = ''GET'', req_path = ''/s?a=1'',
              req_headers = [(''Accept'', ''application/json'')], req_entity = None \<rparr>)"
    using r u by (simp add: sendForm_def sendFormTail_def namedItem_def sendRequest_def
        callerHeaders_def e)
  have n': "namedItem ''_method'' ?g = None" by (simp add: namedItem_def)
  have m': "needsMultipart ?g" by (simp add: needsMultipart_def)
  have second: "\<exists>r. sendForm True ?g = Inr (Some r) \<and> req_method r = ''POST''"
    using effective_method_without_override [OF n'] m' by blast
  from u first second show ?thesis by blast
qed

text \<open>
  C5, as stated, fails on the multipart path: a multipart form that declares the method
  \<open>get\<close> and has no \<open>_method\<close> control is sent with POST, not GET.
\<close>

theorem multipart_ignores_declared_method:
  "namedItem ''_method''
     \<lparr> form_enctype = ''multipart/form-data'', form_method = ''get'', form_action = ''/up'',
       form_elements = [\<lparr> el_type = ''text'', el_name = ''a'', el_id = [], el_value = ''1'',
                          el_options = [] \<rparr>] \<rparr> = None
   \<and> toUpperCase ''get'' = ''GET''
   \<and> sendForm True
     \<lparr> form_enctype = ''multipart/form-data'', form_method = ''get'', form_action = ''/up'',
       form_elements = [\<lparr> el_type = ''text'', el_name = ''a'', el_id = [], el_value = ''1'',
                          el_options = [] \<rparr>] \<rparr>
     = Inr (Some \<lparr> req_method = ''POST'', req_path = ''/up'',
              req_headers = [(''Accept'', ''application/json''),
                             (''Content-Type'', ''multipart/form-data'')],
              req_entity = Some (FormData
                \<lparr> form_enctype = ''multipart/form-data'', form_method = ''get'',
                  form_action = ''/up'',
                  form_elements = [\<lparr> el_type = ''text'', el_name = ''a'', el_id = [],
                                     el_value = ''1'', el_options = [] \<rparr>] \<rparr>) \<rparr>)"
proof -
  have "toUpperCase ''get'' = ''GET''" by code_simp
  then show ?thesis
    by (simp add: sendForm_def sendMultipartForm_def namedItem_def sendRequest_def callerHeaders_def)
qed

text \<open>
  C7, as amended. For every form with at least one file control and no control whose name
  or id is \<open>_method\<close>, on a host with \<open>FormData\<close>, \<open>sendForm\<close> sends the multipart request:
  method POST, the form's action, the content type \<open>multipart/form-data\<close> and the
  \<open>FormData\<close> of the form as entity, whatever enctype the form declares.
\<close>

theorem file_control_multipart:
  "list_ex (\<lambda>c. el_type c = ''file'') (form_elements f) \<Longrightarrow> namedItem ''_method'' f = None \<Longrightarrow>
     sendForm True f =
       Inr (Some \<lparr> req_method = ''POST'', req_path = form_action f,
              req_headers = [(''Accept'', ''application/json''),
                             (''Content-Type'', ''multipart/form-data'')],
              req_entity = Some (FormData f) \<rparr>)"
  by (simp add: sendForm_multipart needsMultipart_def sendMultipartForm_def sendRequest_def
      callerHeaders_def)

theorem file_control_multipart_witness:
  "sendForm True
     \<lparr> form_enctype = ''application/x-www-form-urlencoded'', form_method = ''post'',
       form_action = ''/up'',
       form_elements = [\<lparr> el_type = ''file'', el_name = ''doc'', el_id = [], el_value = [],
                          el_options = [] \<rparr>] \<rparr>
     = Inr (Some \<lparr> req_method = ''POST'', req_path = ''/up'',
              req_headers = [(''Accept'', ''application/json''),
                             (''Content-Type'', ''multipart/form-data'')],
              req_entity = Some (FormData
                \<lparr> form_enctype = ''application/x-www-form-urlencoded'', form_method = ''post'',
                  form_action = ''/up'',
                  form_elements = [\<lparr> el_type = ''file'', el_name = ''doc'', el_id = [],
                                     el_value = [], el_options = [] \<rparr>] \<rparr>) \<rparr>)"
  using file_control_multipart [of
     "\<lparr> form_enctype = ''application/x-www-form-urlencoded'', form_method = ''post'',
       form_action = ''/up'',
       form_elements = [\<lparr> el_type = ''file'', el_name = ''doc'', el_id = [], el_value = [],
                          el_options = [] \<rparr>] \<rparr>"]
  by (simp add: namedItem_def)

text \<open>
  C7, as stated, fails on a host without \<open>FormData\<close>: building the multipart body is
  a ReferenceError there and nothing is sent.
\<close>

theorem file_control_without_FormData:
  "el_type \<lparr> el_type = ''file'', el_name = ''doc'', el_id = [], el_value = [], el_options = [] \<rparr>
     = ''file''
   \<and> sendForm False
     \<lparr> form_enctype = ''application/x-www-form-urlencoded'', form_method = ''post'',
       form_action = ''/up'',
       form_elements = [\<lparr> el_type = ''file'', el_name = ''doc'', el_id = [], el_value = [],
                          el_options = [] \<rparr>] \<rparr>
     = Inl ReferenceError"
  by (simp add: sendForm_def sendMultipartForm_def namedItem_def)

text \<open>
  Off the multipart path and without a \<open>_method\<close> control, a declared method that is
  none of the four cases of the \<open>switch\<close> leaves \<open>sendForm\<close> without a return value.
\<close>

lemma sendForm_unknown_method:
  "\<not> needsMultipart f \<Longrightarrow> namedItem ''_method'' f = None \<Longrightarrow>
   toUpperCase (form_method f) \<notin> {''POST'', ''PUT'', ''DELETE'', ''GET''} \<Longrightarrow>
     sendForm h f = Inr None"
  by (simp add: sendForm_urlencoded sendFormTail_def Let_def)

text \<open>
  C9 does not hold of the code. The \<open>switch\<close> of \<open>sendForm\<close> has no default case: a
  form that declares the method \<open>dialog\<close>, which is none of POST, PUT, DELETE and GET,
  falls out of it, and \<open>sendForm\<close> returns undefined where the claim has it fail with
  an error.
\<close>

theorem dialog_method_no_error:
  "toUpperCase ''dialog'' = ''DIALOG''
   \<and> sendForm True
     \<lparr> form_enctype = ''application/x-www-form-urlencoded'', form_method = ''dialog'',
       form_action = ''/s'', form_elements = [] \<rparr> = Inr None"
  by code_simp

end
